theory Spec2Isabelle
  imports Complex_Main "HOL-Library.AList"
begin

section \<open>JavaScript values and objects\<close>

text \<open>
  A plain JavaScript object is modelled by the list of its own enumerable properties, in
  the order in which \<^verbatim>\<open>Object.keys\<close> and \<^verbatim>\<open>Object.values\<close> enumerate them. For keys
  that are not array indices this is insertion order; an engine enumerates keys that are
  array indices first, so for such keys the list is the enumeration order and not the
  order of insertion.

  Property reads look at own properties only, and a missing key reads as
  \<^verbatim>\<open>undefined\<close>: keys that name a member inherited from \<^verbatim>\<open>Object.prototype\<close> (such
  as \<^verbatim>\<open>constructor\<close>) are outside the model. Strings are lists of 8-bit characters
  (ASCII text).

  The models stop where the source calls \<^verbatim>\<open>db.query\<close>: what is modelled is the
  statement text and the bound values handed to the database, and every \<^verbatim>\<open>throw\<close>
  before that call.
\<close>

type_synonym 'v jsobj = "(string \<times> 'v) list"

definition Object_keys :: "'v jsobj \<Rightarrow> string list" where
  "Object_keys obj = map fst obj"

definition Object_values :: "'v jsobj \<Rightarrow> 'v list" where
  "Object_values obj = map snd obj"

text \<open>\<^verbatim>\<open>Array.prototype.join\<close> on an array of strings.\<close>

fun join :: "string \<Rightarrow> string list \<Rightarrow> string" where
  "join sep [] = []"
| "join sep [x] = x"
| "join sep (x # y # ys) = x @ sep @ join sep (y # ys)"

text \<open>Decimal rendering of a non-negative integer, as a template literal prints it.\<close>

definition digit_char :: "nat \<Rightarrow> char" where
  "digit_char d = char_of (48 + d)"

fun string_of_nat :: "nat \<Rightarrow> string" where
  "string_of_nat n =
     (if n < 10 then [digit_char n]
      else string_of_nat (n div 10) @ [digit_char (n mod 10)])"

declare string_of_nat.simps [simp del]

section \<open>Errors\<close>

text \<open>
  The classes of \<^verbatim>\<open>expressError\<close> that the models import, each with its message (the
  status argument that some call sites add is not represented). A thrown error is the
  \<open>Inl\<close> branch of the result. The specification's ValidationError is
  \<open>BadRequestError\<close> in the code.
\<close>

datatype error = BadRequestError string | NotFoundError string

section \<open>helpers/sql.js\<close>

record 'v assignment =
  setCols :: string
  "values" :: "'v list"

text \<open>
  \<^verbatim>\<open>jsToSql[colName] || colName\<close>: the mapped column name, or the key itself when the
  mapping has no entry for it or maps it to the empty string.
\<close>

definition resolve :: "(string \<rightharpoonup> string) \<Rightarrow> string \<Rightarrow> string" where
  "resolve jsToSql colName =
     (case jsToSql colName of
        None \<Rightarrow> colName
      | Some c \<Rightarrow> if c = [] then colName else c)"

text \<open>The arrow function mapped over the keys: \<^verbatim>\<open>`"${...}"=$${idx + 1}`\<close>.\<close>

definition col_fragment :: "(string \<rightharpoonup> string) \<Rightarrow> nat \<times> string \<Rightarrow> string" where
  "col_fragment jsToSql p =
     (case p of (idx, colName) \<Rightarrow>
        [CHR 0x22] @ resolve jsToSql colName @ [CHR 0x22] @ ''=$'' @ string_of_nat (idx + 1))"

definition cols :: "string list \<Rightarrow> (string \<rightharpoonup> string) \<Rightarrow> string list" where
  "cols keys jsToSql = map (col_fragment jsToSql) (enumerate 0 keys)"

definition sqlForPartialUpdate ::
  "'v jsobj \<Rightarrow> (string \<rightharpoonup> string) \<Rightarrow> error + 'v assignment" where
  "sqlForPartialUpdate dataToUpdate jsToSql =
     (let keys = Object_keys dataToUpdate in
      if length keys = 0 then Inl (BadRequestError ''No data'')
      else Inr \<lparr> setCols = join '', '' (cols keys jsToSql),
                 values = Object_values dataToUpdate \<rparr>)"

section \<open>Values, truthiness and coercions\<close>

text \<open>
  The values a request body or a parsed query string carries: \<^verbatim>\<open>undefined\<close>,
  \<^verbatim>\<open>null\<close>, booleans, integer-valued numbers and strings. Numbers are mathematical
  integers: the model is exact where a double is (safe integers).
\<close>

datatype jsval = JUndefined | JNull | JBool bool | JNum int | JStr string

text \<open>\<^verbatim>\<open>obj[key]\<close> and \<^verbatim>\<open>obj.key\<close>.\<close>

definition get_prop :: "jsval jsobj \<Rightarrow> string \<Rightarrow> jsval" where
  "get_prop obj k = (case map_of obj k of None \<Rightarrow> JUndefined | Some v \<Rightarrow> v)"

text \<open>ToBoolean, as \<^verbatim>\<open>if\<close>, \<^verbatim>\<open>!\<close>, \<^verbatim>\<open>&&\<close> and \<^verbatim>\<open>||\<close> apply it.\<close>

fun truthy :: "jsval \<Rightarrow> bool" where
  "truthy JUndefined = False"
| "truthy JNull = False"
| "truthy (JBool b) = b"
| "truthy (JNum n) = (n \<noteq> 0)"
| "truthy (JStr s) = (s \<noteq> [])"

text \<open>ToString, as a template literal applies it to an interpolated value.\<close>

fun ToString :: "jsval \<Rightarrow> string" where
  "ToString JUndefined = ''undefined''"
| "ToString JNull = ''null''"
| "ToString (JBool b) = (if b then ''true'' else ''false'')"
| "ToString (JNum n) =
     (if n < 0 then ''-'' @ string_of_nat (nat (- n)) else string_of_nat (nat n))"
| "ToString (JStr s) = s"

text \<open>
  The numbers unary \<^verbatim>\<open>+\<close> produces. Finite values are exact rationals (rounding to
  a double is not modelled); \<open>NaN\<close> and the two infinities are values of their own.
\<close>

datatype jsnum = NaN | Fin rat | PosInfinity | NegInfinity

text \<open>The relational operator \<^verbatim>\<open>a > b\<close> on numbers: false whenever a side is NaN.\<close>

fun js_gt :: "jsnum \<Rightarrow> jsnum \<Rightarrow> bool" where
  "js_gt (Fin x) (Fin y) = (y < x)"
| "js_gt PosInfinity (Fin y) = True"
| "js_gt PosInfinity NegInfinity = True"
| "js_gt (Fin x) NegInfinity = True"
| "js_gt _ _ = False"

subsection \<open>StringToNumber\<close>

definition is_ws :: "char \<Rightarrow> bool" where
  "is_ws c = (c \<in> {CHR 0x09, CHR 0x0A, CHR 0x0B, CHR 0x0C, CHR 0x0D, CHR 0x20})"

definition trim :: "string \<Rightarrow> string" where
  "trim s = rev (dropWhile is_ws (rev (dropWhile is_ws s)))"

definition digit_val :: "char \<Rightarrow> nat option" where
  "digit_val c =
     (let n = (of_char c :: nat) in
      if 48 \<le> n \<and> n \<le> 57 then Some (n - 48)
      else if 97 \<le> n \<and> n \<le> 102 then Some (n - 87)
      else if 65 \<le> n \<and> n \<le> 70 then Some (n - 55)
      else None)"

text \<open>A non-empty run of digits of the given base, most significant first.\<close>

fun digits_acc :: "nat \<Rightarrow> string \<Rightarrow> nat \<Rightarrow> nat option" where
  "digits_acc base [] acc = Some acc"
| "digits_acc base (c # cs) acc =
     (case digit_val c of
        None \<Rightarrow> None
      | Some d \<Rightarrow> if d < base then digits_acc base cs (acc * base + d) else None)"

definition parse_digits :: "nat \<Rightarrow> string \<Rightarrow> nat option" where
  "parse_digits base s = (if s = [] then None else digits_acc base s 0)"

text \<open>SignedInteger of an exponent part: decimal digits with an optional sign.\<close>

definition parse_signed :: "string \<Rightarrow> int option" where
  "parse_signed s =
     (case s of
        [] \<Rightarrow> None
      | c # cs \<Rightarrow>
          if c = CHR ''+'' then map_option int (parse_digits 10 cs)
          else if c = CHR ''-'' then map_option (\<lambda>n. - int n) (parse_digits 10 cs)
          else map_option int (parse_digits 10 s))"

text \<open>
  The mantissa of a decimal literal: digits, digits with a fraction (whose digits may be
  missing), or a fraction alone.
\<close>

definition parse_mantissa :: "string \<Rightarrow> rat option" where
  "parse_mantissa s =
     (let ip = takeWhile (\<lambda>c. c \<noteq> CHR ''.'') s;
          rest = dropWhile (\<lambda>c. c \<noteq> CHR ''.'') s
      in if rest = [] then map_option of_nat (parse_digits 10 ip)
         else
           (let fp = tl rest;
                iv = (if ip = [] then Some 0 else parse_digits 10 ip);
                fv = (if fp = [] then Some 0 else parse_digits 10 fp)
            in if ip = [] \<and> fp = [] then None
               else (case (iv, fv) of
                       (Some i, Some f) \<Rightarrow>
                         Some (of_nat i + of_nat f / of_nat (10 ^ length fp))
                     | _ \<Rightarrow> None)))"

definition is_exp_mark :: "char \<Rightarrow> bool" where
  "is_exp_mark c = (c = CHR ''e'' \<or> c = CHR ''E'')"

definition parse_unsigned_decimal :: "string \<Rightarrow> jsnum" where
  "parse_unsigned_decimal s =
     (if s = ''Infinity'' then PosInfinity
      else
        (let m = takeWhile (\<lambda>c. \<not> is_exp_mark c) s;
             rest = dropWhile (\<lambda>c. \<not> is_exp_mark c) s
         in case parse_mantissa m of
              None \<Rightarrow> NaN
            | Some q \<Rightarrow>
                if rest = [] then Fin q
                else (case parse_signed (tl rest) of
                        None \<Rightarrow> NaN
                      | Some e \<Rightarrow>
                          if 0 \<le> e then Fin (q * of_nat (10 ^ nat e))
                          else Fin (q / of_nat (10 ^ nat (- e))))))"

fun js_neg :: "jsnum \<Rightarrow> jsnum" where
  "js_neg NaN = NaN"
| "js_neg (Fin q) = Fin (- q)"
| "js_neg PosInfinity = NegInfinity"
| "js_neg NegInfinity = PosInfinity"

definition radix_literal :: "nat \<Rightarrow> string \<Rightarrow> jsnum" where
  "radix_literal base s =
     (case parse_digits base s of None \<Rightarrow> NaN | Some n \<Rightarrow> Fin (of_nat n))"

text \<open>
  StringToNumber: surrounding white space (the ASCII white space and line terminators) is
  dropped, the empty string is 0, then a hexadecimal, octal or binary integer literal
  (unsigned) or a decimal literal with an optional sign; anything else is NaN.
\<close>

definition StringToNumber :: "string \<Rightarrow> jsnum" where
  "StringToNumber str =
     (let s = trim str in
      if s = [] then Fin 0
      else if take 2 s = ''0x'' \<or> take 2 s = ''0X'' then radix_literal 16 (drop 2 s)
      else if take 2 s = ''0o'' \<or> take 2 s = ''0O'' then radix_literal 8 (drop 2 s)
      else if take 2 s = ''0b'' \<or> take 2 s = ''0B'' then radix_literal 2 (drop 2 s)
      else if hd s = CHR ''+'' then parse_unsigned_decimal (tl s)
      else if hd s = CHR ''-'' then js_neg (parse_unsigned_decimal (tl s))
      else parse_unsigned_decimal s)"

text \<open>ToNumber, as unary \<^verbatim>\<open>+\<close> applies it.\<close>

fun ToNumber :: "jsval \<Rightarrow> jsnum" where
  "ToNumber JUndefined = NaN"
| "ToNumber JNull = Fin 0"
| "ToNumber (JBool b) = (if b then Fin 1 else Fin 0)"
| "ToNumber (JNum n) = Fin (of_int n)"
| "ToNumber (JStr s) = StringToNumber s"

section \<open>The filter loop shared by both models\<close>

text \<open>
  What a filter hands to \<^verbatim>\<open>db.query\<close>: the statement text and the bound parameters,
  with the condition fragments and their conjunction the text was built from.
\<close>

record filter_build =
  conditions :: "string list"
  sqlWhere :: string
  queryStmt :: string
  params :: "jsval list"

text \<open>
  The body of \<^verbatim>\<open>queryKeys.forEach\<close>: a key whose value is truthy and whose
  \<^verbatim>\<open>sqlMap\<close> entry is truthy pushes the value, then a fragment numbered by the new
  length of \<^verbatim>\<open>params\<close>.
\<close>

definition filter_step ::
  "jsval jsobj \<Rightarrow> (string \<rightharpoonup> string) \<Rightarrow> string \<Rightarrow>
   jsval list \<times> string list \<Rightarrow> jsval list \<times> string list" where
  "filter_step query sqlMap key st =
     (case st of (ps, cs) \<Rightarrow>
        (case sqlMap key of
           None \<Rightarrow> st
         | Some frag \<Rightarrow>
             if truthy (get_prop query key) \<and> frag \<noteq> [] then
               (let ps' = ps @ [get_prop query key]
                in (ps', cs @ [frag @ '' $'' @ string_of_nat (length ps')]))
             else st))"

definition filter_loop ::
  "jsval jsobj \<Rightarrow> (string \<rightharpoonup> string) \<Rightarrow> jsval list \<times> string list" where
  "filter_loop query sqlMap = fold (filter_step query sqlMap) (Object_keys query) ([], [])"

section \<open>models/company.js\<close>

definition company_sqlMap :: "string \<rightharpoonup> string" where
  "company_sqlMap =
     [''nameLike'' \<mapsto> ''name ILIKE'',
      ''minEmployees'' \<mapsto> ''num_employees >='',
      ''maxEmployees'' \<mapsto> ''num_employees <='']"

text \<open>The column mapping \<^verbatim>\<open>Company.update\<close> passes to \<^verbatim>\<open>sqlForPartialUpdate\<close>.\<close>

definition company_jsToSql :: "string \<rightharpoonup> string" where
  "company_jsToSql =
     [''numEmployees'' \<mapsto> ''num_employees'', ''logoUrl'' \<mapsto> ''logo_url'']"

definition company_queryStmt :: "string \<Rightarrow> string" where
  \<open>company_queryStmt wh =
     join [CHR 0x0A]
       [''SELECT'',
        ''      handle,'',
        ''      name,'',
        ''      description,'',
        ''      num_employees AS "numEmployees",'',
        ''      logo_url AS "logoUrl"'',
        ''        FROM companies'',
        ''          WHERE '' @ wh,
        ''            ORDER BY name'']\<close>

text \<open>
  \<^verbatim>\<open>Company.filter\<close> up to its call of \<^verbatim>\<open>db.query\<close>. The function assigns to
  \<^verbatim>\<open>query.nameLike\<close>, so the caller's object is part of the result: the first
  component is the object as the call leaves it.
\<close>

definition Company_filter :: "jsval jsobj \<Rightarrow> jsval jsobj \<times> (error + filter_build)" where
  "Company_filter query =
     (if \<not> truthy (get_prop query ''nameLike'') \<and> \<not> truthy (get_prop query ''minEmployees'')
          \<and> \<not> truthy (get_prop query ''maxEmployees'')
      then (query, Inl (BadRequestError ''Invalid search criteria''))
      else if truthy (get_prop query ''minEmployees'') \<and> truthy (get_prop query ''maxEmployees'')
          \<and> js_gt (ToNumber (get_prop query ''minEmployees''))
                   (ToNumber (get_prop query ''maxEmployees''))
      then (query, Inl (BadRequestError
              ''Invalid request, minEmployees can not exceed maxEmployees''))
      else
        (let query' =
               (if truthy (get_prop query ''nameLike'')
                then AList.update ''nameLike''
                       (JStr (''%'' @ ToString (get_prop query ''nameLike'') @ ''%'')) query
                else query);
             (ps, cs) = filter_loop query' company_sqlMap;
             w = join '' AND '' cs
         in (query', Inr \<lparr> conditions = cs, sqlWhere = w,
                            queryStmt = company_queryStmt w, params = ps \<rparr>)))"

section \<open>models/job.js\<close>

text \<open>
  The \<^verbatim>\<open>sqlMap\<close> of \<^verbatim>\<open>Job.filter\<close>. Its third entry is the template
  \<^verbatim>\<open>`equity ${'= 0' ? !query.hasEquity : '> 0'}`\<close>: the condition of the conditional
  operator is the non-empty string \<^verbatim>\<open>'= 0'\<close>, so the interpolated value is the
  boolean \<^verbatim>\<open>!query.hasEquity\<close>.
\<close>

definition job_sqlMap :: "jsval jsobj \<Rightarrow> (string \<rightharpoonup> string)" where
  "job_sqlMap query =
     [''title'' \<mapsto> ''title ILIKE'',
      ''minSalary'' \<mapsto> ''salary >='',
      ''hasEquity'' \<mapsto>
         ''equity '' @ ToString (if truthy (JStr ''= 0'')
                                then JBool (\<not> truthy (get_prop query ''hasEquity''))
                                else JStr ''> 0'')]"

definition job_queryStmt :: "string \<Rightarrow> string" where
  "job_queryStmt wh =
     join [CHR 0x0A]
       [[],
        ''                SELECT id,'',
        ''                       title,'',
        ''                       company_handle AS companyHandle,'',
        ''                       salary,'',
        ''                       equity,'',
        ''                    FROM jobs'',
        ''                    WHERE '' @ wh,
        ''                    ORDER BY title, companyHandle'']"

definition Job_filter :: "jsval jsobj \<Rightarrow> jsval jsobj \<times> (error + filter_build)" where
  "Job_filter query =
     (if \<not> truthy (get_prop query ''title'') \<and> \<not> truthy (get_prop query ''minSalary'')
          \<and> \<not> truthy (get_prop query ''hasEquity'')
      then (query, Inl (BadRequestError ''Invalid search criteria''))
      else
        (let query' =
               (if truthy (get_prop query ''title'')
                then AList.update ''title''
                       (JStr (''%'' @ ToString (get_prop query ''title'') @ ''%'')) query
                else query);
             (ps, cs) = filter_loop query' (job_sqlMap query');
             w = join '' AND '' cs
         in (query', Inr \<lparr> conditions = cs, sqlWhere = w,
                            queryStmt = job_queryStmt w, params = ps \<rparr>)))"

text \<open>
  \<^verbatim>\<open>Job.update\<close> up to its call of \<^verbatim>\<open>db.query\<close>: the statement text and the
  values bound to it, the job id pushed last.
\<close>

record update_build =
  querySql :: string
  queryValues :: "jsval list"

definition job_jsToSql :: "string \<rightharpoonup> string" where
  "job_jsToSql = [''companyHandle'' \<mapsto> ''company_handle'']"

definition job_querySql :: "string \<Rightarrow> jsval list \<Rightarrow> string" where
  \<open>job_querySql cs vs =
     join [CHR 0x0A]
       [''UPDATE jobs'',
        ''                            SET '' @ cs,
        ''                            WHERE id = $'' @ string_of_nat (length vs),
        ''                            RETURNING id,'',
        ''                                      title,'',
        ''                                      company_handle AS "companyHandle",'',
        ''                                      salary,'',
        ''                                      equity'']\<close>

definition Job_update :: "jsval \<Rightarrow> jsval jsobj \<Rightarrow> error + update_build" where
  "Job_update jid data =
     (if truthy (get_prop data ''id'') \<or> truthy (get_prop data ''companyHandle'')
      then Inl (BadRequestError ''Job id and companyHandle can not be changed'')
      else
        (case sqlForPartialUpdate data job_jsToSql of
           Inl e \<Rightarrow> Inl e
         | Inr r \<Rightarrow>
             (let vs = values r @ [jid]
              in Inr \<lparr> querySql = job_querySql (setCols r) vs, queryValues = vs \<rparr>)))"

section \<open>Auxiliary notions for the proofs\<close>

text \<open>
  The keys the filter loop acts on, the fragment it pushes for the key at a position,
  and the query object after the wildcard assignment of each model.
\<close>

definition selected :: "jsval jsobj \<Rightarrow> (string \<rightharpoonup> string) \<Rightarrow> string \<Rightarrow> bool" where
  "selected query sqlMap key =
     (truthy (get_prop query key) \<and> (case sqlMap key of None \<Rightarrow> False | Some frag \<Rightarrow> frag \<noteq> []))"

definition fragment :: "(string \<rightharpoonup> string) \<Rightarrow> nat \<times> string \<Rightarrow> string" where
  "fragment sqlMap p = (case p of (i, key) \<Rightarrow> the (sqlMap key) @ '' $'' @ string_of_nat (i + 1))"

definition company_wrap :: "jsval jsobj \<Rightarrow> jsval jsobj" where
  "company_wrap q =
     (if truthy (get_prop q ''nameLike'')
      then AList.update ''nameLike'' (JStr (''%'' @ ToString (get_prop q ''nameLike'') @ ''%'')) q
      else q)"


definition job_wrap :: "jsval jsobj \<Rightarrow> jsval jsobj" where
  "job_wrap q =
     (if truthy (get_prop q ''title'')
      then AList.update ''title'' (JStr (''%'' @ ToString (get_prop q ''title'') @ ''%'')) q
      else q)"

definition job_selected_keys :: "jsval jsobj \<Rightarrow> string list" where
  "job_selected_keys q =
     filter (selected (job_wrap q) (job_sqlMap (job_wrap q))) (Object_keys (job_wrap q))"

section \<open>Decimal rendering\<close>

lemma digits_acc_snoc:
  "digits_acc b (cs @ [c]) acc =
     (case digits_acc b cs acc of
        None \<Rightarrow> None
      | Some a \<Rightarrow> (case digit_val c of
                    None \<Rightarrow> None
                  | Some d \<Rightarrow> if d < b then Some (a * b + d) else None))"
  by (induction cs arbitrary: acc) (auto split: option.splits)

lemma digit_val_digit_char: "d < 10 \<Longrightarrow> digit_val (digit_char d) = Some d"
  by (simp add: digit_val_def digit_char_def Let_def)

lemma string_of_nat_nonempty: "string_of_nat n \<noteq> []"
  by (subst string_of_nat.simps) simp

lemma digits_acc_string_of_nat: "digits_acc 10 (string_of_nat n) 0 = Some n"
proof (induction n rule: string_of_nat.induct)
  case (1 n)
  show ?case
  proof (cases "n < 10")
    case True
    then show ?thesis
      by (subst string_of_nat.simps) (simp add: digit_val_digit_char)
  next
    case False
    with 1 have "digits_acc 10 (string_of_nat (n div 10)) 0 = Some (n div 10)" by simp
    with False show ?thesis
      by (subst string_of_nat.simps) (simp add: digits_acc_snoc digit_val_digit_char)
  qed
qed

text \<open>
  The text \<open>string_of_nat n\<close> is a decimal numeral that reads back as \<open>n\<close>, so
  different parameter positions are written differently.
\<close>

lemma parse_string_of_nat: "parse_digits 10 (string_of_nat n) = Some n"
  by (simp add: parse_digits_def string_of_nat_nonempty digits_acc_string_of_nat)

lemma string_of_nat_inj: "string_of_nat m = string_of_nat n \<Longrightarrow> m = n"
  by (metis parse_string_of_nat option.inject)

section \<open>Properties of \<open>sqlForPartialUpdate\<close>\<close>


lemma nth_cols:
  "i < length ks \<Longrightarrow>
   cols ks m ! i =
     [CHR 0x22] @ resolve m (ks ! i) @ [CHR 0x22] @ ''=$'' @ string_of_nat (i + 1)"
  by (simp add: cols_def col_fragment_def nth_enumerate_eq)

text \<open>
  Claim C1. The clause text \<open>setCols\<close> is built from the key names, the column mapping
  and fixed syntax only. Two requests with the same keys in the same order, whatever
  their values (even values of different types), give the same outcome up to the values
  list: the same error or the same \<open>setCols\<close>. The text is the join of the fragments
  computed from the keys, and the values are returned, unchanged, in the values list.
\<close>

theorem sqlForPartialUpdate_setCols_from_keys_only:
  fixes d1 :: "'a jsobj" and d2 :: "'b jsobj"
  assumes "Object_keys d1 = Object_keys d2"
  shows "map_sum id setCols (sqlForPartialUpdate d1 m)
           = map_sum id setCols (sqlForPartialUpdate d2 m)
       \<and> (\<forall>r. sqlForPartialUpdate d1 m = Inr r \<longrightarrow>
              setCols r = join '', '' (cols (Object_keys d1) m)
              \<and> values r = Object_values d1)"
  using assms by (auto simp add: sqlForPartialUpdate_def Let_def split: if_splits)

theorem sqlForPartialUpdate_setCols_from_keys_only_witness:
  \<open>Object_keys [(''name'', JStr ''Acme'')] = Object_keys [(''name'', JNum 7)]
   \<and> map_sum id setCols (sqlForPartialUpdate [(''name'', JStr ''Acme'')] company_jsToSql)
       = map_sum id setCols (sqlForPartialUpdate [(''name'', JNum 7)] company_jsToSql)
   \<and> sqlForPartialUpdate [(''name'', JStr ''Acme'')] company_jsToSql
       = Inr \<lparr> setCols = ''"name"=$1'', values = [JStr ''Acme''] \<rparr>
   \<and> join '', '' (cols (Object_keys [(''name'', JStr ''Acme'')]) company_jsToSql) = ''"name"=$1''\<close>
proof -
  have k: "Object_keys [(''name'', JStr ''Acme'')] = Object_keys [(''name'', JNum 7)]"
    by (simp add: Object_keys_def)
  have e: \<open>sqlForPartialUpdate [(''name'', JStr ''Acme'')] company_jsToSql
             = Inr \<lparr> setCols = ''"name"=$1'', values = [JStr ''Acme''] \<rparr>\<close>
    by code_simp
  from sqlForPartialUpdate_setCols_from_keys_only [OF k, of company_jsToSql] e k
  show ?thesis by force
qed



text \<open>
  Claim C4. A request without keys fails with \<open>BadRequestError\<close> (the error class the
  specification calls ValidationError), message \<^verbatim>\<open>No data\<close>. The check is the first
  branch of the function: the result carries no clause text, for any column mapping.
\<close>

theorem sqlForPartialUpdate_empty_fails:
  "length (Object_keys d) = 0 \<Longrightarrow> sqlForPartialUpdate d m = Inl (BadRequestError ''No data'')"
  by (simp add: sqlForPartialUpdate_def)

theorem sqlForPartialUpdate_empty_fails_witness:
  "length (Object_keys ([] :: jsval jsobj)) = 0
   \<and> sqlForPartialUpdate ([] :: jsval jsobj) company_jsToSql = Inl (BadRequestError ''No data'')"
proof -
  have h: "length (Object_keys ([] :: jsval jsobj)) = 0" by (simp add: Object_keys_def)
  from sqlForPartialUpdate_empty_fails [OF h, of company_jsToSql] h show ?thesis by simp
qed

text \<open>
  Claim C5. With the mapping of \<^verbatim>\<open>Company.update\<close> and the request
  \<^verbatim>\<open>{numEmployees: 5, name: "Acme"}\<close> the fragments are \<^verbatim>\<open>"num_employees"=$1\<close> and
  \<^verbatim>\<open>"name"=$2\<close>, joined into \<open>setCols\<close>, and the values are \<^verbatim>\<open>[5, "Acme"]\<close>.
\<close>

theorem sqlForPartialUpdate_company_example:
  \<open>cols (Object_keys [(''numEmployees'', JNum 5), (''name'', JStr ''Acme'')]) company_jsToSql
     = [''"num_employees"=$1'', ''"name"=$2'']
   \<and> sqlForPartialUpdate [(''numEmployees'', JNum 5), (''name'', JStr ''Acme'')] company_jsToSql
     = Inr \<lparr> setCols = ''"num_employees"=$1, "name"=$2'',
              values = [JNum 5, JStr ''Acme''] \<rparr>\<close>
  by code_simp

section \<open>Objects and the filter loop\<close>

lemma get_prop_update:
  "get_prop (AList.update k v q) k' = (if k' = k then v else get_prop q k')"
  by (simp add: get_prop_def update_conv')

lemma truthy_in_keys: "truthy (get_prop q k) \<Longrightarrow> k \<in> set (Object_keys q)"
  by (auto simp: get_prop_def Object_keys_def split: option.splits dest: map_of_SomeD intro: rev_image_eqI)

lemma keys_update: "k \<in> set (Object_keys q) \<Longrightarrow> Object_keys (AList.update k v q) = Object_keys q"
  by (simp add: Object_keys_def update_keys)

lemma update_frame:
  "k \<in> set (Object_keys q) \<Longrightarrow> i < length q \<Longrightarrow> fst (q ! i) \<noteq> k \<Longrightarrow> AList.update k v q ! i = q ! i"
proof (induction q arbitrary: i)
  case Nil
  then show ?case by simp
next
  case (Cons p q)
  then show ?case
    by (cases i) (auto simp: Object_keys_def)
qed

lemma length_update: "k \<in> set (Object_keys q) \<Longrightarrow> length (AList.update k v q) = length q"
  by (metis keys_update Object_keys_def length_map)

lemma get_prop_absent: "k \<notin> set (Object_keys q) \<Longrightarrow> get_prop q k = JUndefined"
  by (simp add: get_prop_def Object_keys_def map_of_eq_None_iff [THEN iffD2])

text \<open>
  The loop in closed form: the parameters are the values of the selected keys, in key
  order, and fragment \<open>j\<close> (from 0) carries the placeholder number \<open>j + 1\<close>.
\<close>

lemma fold_filter_step:
  "fold (filter_step q m) ks (ps, cs) =
     (ps @ map (get_prop q) (filter (selected q m) ks),
      cs @ map (fragment m) (enumerate (length ps) (filter (selected q m) ks)))"
proof (induction ks arbitrary: ps cs)
  case Nil
  then show ?case by simp
next
  case (Cons k ks)
  show ?case
  proof (cases "selected q m k")
    case True
    then obtain frag where f: "m k = Some frag" "frag \<noteq> []" "truthy (get_prop q k)"
      by (auto simp: selected_def split: option.splits)
    then have "filter_step q m k (ps, cs) =
        (ps @ [get_prop q k], cs @ [frag @ '' $'' @ string_of_nat (length ps + 1)])"
      by (simp add: filter_step_def Let_def)
    with True f show ?thesis
      by (simp add: Cons.IH fragment_def)
  next
    case False
    then have "filter_step q m k (ps, cs) = (ps, cs)"
      by (auto simp: selected_def filter_step_def split: option.splits)
    with False show ?thesis by (simp add: Cons.IH)
  qed
qed

lemma filter_loop_eq:
  "filter_loop q m =
     (map (get_prop q) (filter (selected q m) (Object_keys q)),
      map (fragment m) (enumerate 0 (filter (selected q m) (Object_keys q))))"
  by (simp add: filter_loop_def fold_filter_step)

section \<open>Properties of \<open>Company.filter\<close> and \<open>Job.filter\<close>\<close>










lemma fst_Company_filter:
  "fst (Company_filter q) = (case snd (Company_filter q) of Inl e \<Rightarrow> q | Inr b \<Rightarrow> company_wrap q)"
  by (simp add: Company_filter_def company_wrap_def Let_def split_beta)

lemma fst_Job_filter:
  "fst (Job_filter q) = (case snd (Job_filter q) of Inl e \<Rightarrow> q | Inr b \<Rightarrow> job_wrap q)"
  by (simp add: Job_filter_def job_wrap_def Let_def split_beta)

lemma wrap_frame:
  fixes q :: "jsval jsobj"
  assumes "q' = q \<or> (truthy (get_prop q k) \<and> q' = AList.update k v q)"
  shows "length q' = length q \<and> Object_keys q' = Object_keys q
       \<and> (\<forall>i<length q. fst (q ! i) \<noteq> k \<longrightarrow> q' ! i = q ! i)"
  using assms
  by (auto simp: length_update keys_update update_frame truthy_in_keys)

lemma Job_filter_Inr:
  assumes "Job_filter q = (q', Inr b)"
  shows "q' = job_wrap q"
    and "conditions b = map (fragment (job_sqlMap (job_wrap q))) (enumerate 0 (job_selected_keys q))"
    and "params b = map (get_prop (job_wrap q)) (job_selected_keys q)"
    and "sqlWhere b = join '' AND '' (conditions b)"
    and "queryStmt b = job_queryStmt (sqlWhere b)"
  using assms
  by (auto simp: Job_filter_def job_wrap_def job_selected_keys_def Let_def
        filter_loop_eq split: if_splits)

lemma keys_job_wrap: "Object_keys (job_wrap q) = Object_keys q"
  by (simp add: job_wrap_def keys_update truthy_in_keys)

lemma get_prop_job_wrap:
  "get_prop (job_wrap q) k =
     (if k = ''title'' \<and> truthy (get_prop q ''title'')
      then JStr (''%'' @ ToString (get_prop q ''title'') @ ''%'')
      else get_prop q k)"
  by (simp add: job_wrap_def get_prop_update)

lemma job_sqlMap_hasEquity:
  "job_sqlMap q ''hasEquity'' =
     Some (if truthy (get_prop q ''hasEquity'') then ''equity false'' else ''equity true'')"
  by (simp add: job_sqlMap_def)

lemma selected_job_wrap:
  "selected (job_wrap q) (job_sqlMap (job_wrap q)) k =
     (k \<in> {''title'', ''minSalary'', ''hasEquity''} \<and> truthy (get_prop q k))"
  by (auto simp: selected_def get_prop_job_wrap job_sqlMap_def)

lemma job_selected_keys_eq:
  "job_selected_keys q =
     filter (\<lambda>k. k \<in> {''title'', ''minSalary'', ''hasEquity''} \<and> truthy (get_prop q k))
       (Object_keys q)"
  unfolding job_selected_keys_def keys_job_wrap
  by (rule filter_cong) (simp_all add: selected_job_wrap)

text \<open>
  With a falsy \<^verbatim>\<open>hasEquity\<close> the loop skips the key: no fragment of the predicate
  mentions equity. With a truthy one the fragment is \<^verbatim>\<open>equity false $j\<close>, bound to the
  caller's flag.
\<close>

lemma Job_filter_hasEquity_truthy:
  assumes "truthy (get_prop q ''hasEquity'')" and "Job_filter q = (q', Inr b)"
  shows "\<exists>j<length (conditions b).
           conditions b ! j = ''equity false $'' @ string_of_nat (j + 1)
           \<and> params b ! j = get_prop q ''hasEquity''"
proof -
  let ?ks = "job_selected_keys q"
  note b = Job_filter_Inr [OF assms(2)]
  have "''hasEquity'' \<in> set ?ks"
    using assms(1) by (simp add: job_selected_keys_eq truthy_in_keys)
  then obtain j where j: "j < length ?ks" "?ks ! j = ''hasEquity''"
    by (auto simp: in_set_conv_nth)
  show ?thesis
  proof (intro exI conjI)
    show "j < length (conditions b)" using j by (simp add: b)
    show "conditions b ! j = ''equity false $'' @ string_of_nat (j + 1)"
      using j assms(1)
      by (simp add: b nth_enumerate_eq fragment_def job_sqlMap_hasEquity get_prop_job_wrap)
    show "params b ! j = get_prop q ''hasEquity''"
      using j by (simp add: b get_prop_job_wrap)
  qed
qed

lemma Job_filter_hasEquity_falsy:
  assumes "\<not> truthy (get_prop q ''hasEquity'')" and "Job_filter q = (q', Inr b)"
  shows "\<forall>c\<in>set (conditions b). take 6 c \<noteq> ''equity''"
proof
  fix c assume "c \<in> set (conditions b)"
  then obtain j where j: "j < length (job_selected_keys q)"
      "c = fragment (job_sqlMap (job_wrap q)) (j, job_selected_keys q ! j)"
    by (auto simp: Job_filter_Inr(2) [OF assms(2)] in_set_conv_nth nth_enumerate_eq)
  from j(1) have "job_selected_keys q ! j \<in> set (job_selected_keys q)" by simp
  with assms(1) have "job_selected_keys q ! j \<in> {''title'', ''minSalary''}"
    by (auto simp: job_selected_keys_eq)
  with j(2) show "take 6 c \<noteq> ''equity''"
    by (auto simp: fragment_def job_sqlMap_def)
qed

text \<open>
  Claim C2. \<^verbatim>\<open>Job.filter\<close> with \<^verbatim>\<open>hasEquity\<close> true is to restrict to rows with
  equity strictly greater than zero. On \<^verbatim>\<open>{hasEquity: "true"}\<close> (what the route passes
  for \<^verbatim>\<open>GET /jobs?hasEquity=true\<close>) and on \<^verbatim>\<open>{hasEquity: true}\<close> the predicate built
  is \<^verbatim>\<open>equity false $1\<close> with the flag itself as bound parameter: the conditional
  operator in \<^verbatim>\<open>sqlMap\<close> tests the constant string \<^verbatim>\<open>'= 0'\<close>, so the comparison
  \<^verbatim>\<open>> 0\<close> is never emitted.
\<close>

theorem Job_filter_hasEquity_true_builds_equity_false:
  "Job_filter [(''hasEquity'', JStr ''true'')]
     = ([(''hasEquity'', JStr ''true'')],
        Inr \<lparr> conditions = [''equity false $1''],
               sqlWhere = ''equity false $1'',
               queryStmt = job_queryStmt ''equity false $1'',
               params = [JStr ''true''] \<rparr>)
  \<and> Job_filter [(''hasEquity'', JBool True)]
     = ([(''hasEquity'', JBool True)],
        Inr \<lparr> conditions = [''equity false $1''],
               sqlWhere = ''equity false $1'',
               queryStmt = job_queryStmt ''equity false $1'',
               params = [JBool True] \<rparr>)"
  by code_simp

text \<open>
  Claim C6. A criteria object with none of the keys \<^verbatim>\<open>nameLike\<close>,
  \<^verbatim>\<open>minEmployees\<close>, \<^verbatim>\<open>maxEmployees\<close> makes \<^verbatim>\<open>Company.filter\<close> fail with
  \<open>BadRequestError\<close> (the specification's ValidationError), message
  \<^verbatim>\<open>Invalid search criteria\<close>; one with none of \<^verbatim>\<open>title\<close>, \<^verbatim>\<open>minSalary\<close>,
  \<^verbatim>\<open>hasEquity\<close> makes \<^verbatim>\<open>Job.filter\<close> fail the same way. The object is left as it was.
\<close>

theorem filter_rejects_unrecognized_criteria:
  "(''nameLike'' \<notin> set (Object_keys q) \<and> ''minEmployees'' \<notin> set (Object_keys q)
      \<and> ''maxEmployees'' \<notin> set (Object_keys q)
    \<longrightarrow> Company_filter q = (q, Inl (BadRequestError ''Invalid search criteria'')))
   \<and> (''title'' \<notin> set (Object_keys q) \<and> ''minSalary'' \<notin> set (Object_keys q)
      \<and> ''hasEquity'' \<notin> set (Object_keys q)
    \<longrightarrow> Job_filter q = (q, Inl (BadRequestError ''Invalid search criteria'')))"
  by (simp add: Company_filter_def Job_filter_def get_prop_absent)

theorem filter_rejects_unrecognized_criteria_witness:
  "Company_filter [] = ([], Inl (BadRequestError ''Invalid search criteria''))
   \<and> Job_filter [] = ([], Inl (BadRequestError ''Invalid search criteria''))
   \<and> Company_filter [(''notValid'', JStr ''10'')]
       = ([(''notValid'', JStr ''10'')], Inl (BadRequestError ''Invalid search criteria''))
   \<and> Job_filter [(''notValid'', JStr ''10'')]
       = ([(''notValid'', JStr ''10'')], Inl (BadRequestError ''Invalid search criteria''))"
  using filter_rejects_unrecognized_criteria [of "[]"] filter_rejects_unrecognized_criteria [of "[(''notValid'', JStr ''10'')]"]
  by (simp add: Object_keys_def)




text \<open>The same on the strings a query string delivers.\<close>

lemma Company_filter_rejects_string_bounds:
  "Company_filter [(''minEmployees'', JStr ''10''), (''maxEmployees'', JStr ''5'')] =
           ([(''minEmployees'', JStr ''10''), (''maxEmployees'', JStr ''5'')],
            Inl (BadRequestError ''Invalid request, minEmployees can not exceed maxEmployees''))"
  by code_simp




text \<open>
  Claim C9 as stated fails: both filters assign the wrapped pattern to the caller's
  criteria object, so after \<^verbatim>\<open>Company.filter({nameLike: "tech"})\<close> the caller's object
  holds \<^verbatim>\<open>%tech%\<close>, and likewise for \<^verbatim>\<open>title\<close> in \<^verbatim>\<open>Job.filter\<close>.
\<close>

theorem filter_overwrites_pattern_key:
  "fst (Company_filter [(''nameLike'', JStr ''tech'')]) = [(''nameLike'', JStr ''%tech%'')]
   \<and> fst (Company_filter [(''nameLike'', JStr ''tech'')]) \<noteq> [(''nameLike'', JStr ''tech'')]
   \<and> fst (Job_filter [(''title'', JStr ''eng'')]) = [(''title'', JStr ''%eng%'')]
   \<and> fst (Job_filter [(''title'', JStr ''eng'')]) \<noteq> [(''title'', JStr ''eng'')]"
  by code_simp

text \<open>
  Claim C9, amended. \<^verbatim>\<open>Company.filter\<close> leaves the criteria object with the same keys
  in the same order and with every entry other than \<^verbatim>\<open>nameLike\<close> unchanged; the whole
  object is unchanged when the call fails validation or \<^verbatim>\<open>nameLike\<close> is falsy;
  otherwise \<^verbatim>\<open>nameLike\<close> is overwritten with its wrapped text. The same holds for
  \<^verbatim>\<open>Job.filter\<close> and \<^verbatim>\<open>title\<close>. (\<^verbatim>\<open>sqlForPartialUpdate\<close> assigns to neither of its
  arguments; it is a function of them in this development.)
\<close>

theorem filter_changes_only_pattern_key:
  "(length (fst (Company_filter q)) = length q
      \<and> Object_keys (fst (Company_filter q)) = Object_keys q
      \<and> (\<forall>i<length q. fst (q ! i) \<noteq> ''nameLike'' \<longrightarrow> fst (Company_filter q) ! i = q ! i)
      \<and> (\<forall>e. snd (Company_filter q) = Inl e \<longrightarrow> fst (Company_filter q) = q)
      \<and> (\<not> truthy (get_prop q ''nameLike'') \<longrightarrow> fst (Company_filter q) = q)
      \<and> (\<forall>b. snd (Company_filter q) = Inr b \<and> truthy (get_prop q ''nameLike'') \<longrightarrow>
            get_prop (fst (Company_filter q)) ''nameLike''
              = JStr (''%'' @ ToString (get_prop q ''nameLike'') @ ''%'')))
   \<and> (length (fst (Job_filter q)) = length q
      \<and> Object_keys (fst (Job_filter q)) = Object_keys q
      \<and> (\<forall>i<length q. fst (q ! i) \<noteq> ''title'' \<longrightarrow> fst (Job_filter q) ! i = q ! i)
      \<and> (\<forall>e. snd (Job_filter q) = Inl e \<longrightarrow> fst (Job_filter q) = q)
      \<and> (\<not> truthy (get_prop q ''title'') \<longrightarrow> fst (Job_filter q) = q)
      \<and> (\<forall>b. snd (Job_filter q) = Inr b \<and> truthy (get_prop q ''title'') \<longrightarrow>
            get_prop (fst (Job_filter q)) ''title''
              = JStr (''%'' @ ToString (get_prop q ''title'') @ ''%'')))"
proof -
  have c: "fst (Company_filter q) = q \<or> (truthy (get_prop q ''nameLike'')
      \<and> fst (Company_filter q) = AList.update ''nameLike''
            (JStr (''%'' @ ToString (get_prop q ''nameLike'') @ ''%'')) q)"
    by (auto simp: fst_Company_filter company_wrap_def split: sum.splits)
  have j: "fst (Job_filter q) = q \<or> (truthy (get_prop q ''title'')
      \<and> fst (Job_filter q) = AList.update ''title''
            (JStr (''%'' @ ToString (get_prop q ''title'') @ ''%'')) q)"
    by (auto simp: fst_Job_filter job_wrap_def split: sum.splits)
  have c1: "\<forall>e. snd (Company_filter q) = Inl e \<longrightarrow> fst (Company_filter q) = q"
    by (simp add: fst_Company_filter)
  have c2: "\<not> truthy (get_prop q ''nameLike'') \<longrightarrow> fst (Company_filter q) = q"
    using c by blast
  have c3: "\<forall>b. snd (Company_filter q) = Inr b \<and> truthy (get_prop q ''nameLike'') \<longrightarrow>
            get_prop (fst (Company_filter q)) ''nameLike''
              = JStr (''%'' @ ToString (get_prop q ''nameLike'') @ ''%'')"
    by (simp add: fst_Company_filter company_wrap_def get_prop_update)
  have j1: "\<forall>e. snd (Job_filter q) = Inl e \<longrightarrow> fst (Job_filter q) = q"
    by (simp add: fst_Job_filter)
  have j2: "\<not> truthy (get_prop q ''title'') \<longrightarrow> fst (Job_filter q) = q"
    using j by blast
  have j3: "\<forall>b. snd (Job_filter q) = Inr b \<and> truthy (get_prop q ''title'') \<longrightarrow>
            get_prop (fst (Job_filter q)) ''title''
              = JStr (''%'' @ ToString (get_prop q ''title'') @ ''%'')"
    by (simp add: fst_Job_filter job_wrap_def get_prop_update)
  from wrap_frame [OF c] wrap_frame [OF j] c1 c2 c3 j1 j2 j3 show ?thesis
    by blast
qed

theorem filter_changes_only_pattern_key_witness:
  "(1::nat) < length [(''nameLike'', JStr ''tech''), (''minEmployees'', JStr ''5'')]
   \<and> fst ([(''nameLike'', JStr ''tech''), (''minEmployees'', JStr ''5'')] ! 1) \<noteq> ''nameLike''
   \<and> fst (Company_filter [(''nameLike'', JStr ''tech''), (''minEmployees'', JStr ''5'')]) ! 1
       = (''minEmployees'', JStr ''5'')
   \<and> \<not> truthy (get_prop [(''minSalary'', JStr ''5'')] ''title'')
   \<and> fst (Job_filter [(''minSalary'', JStr ''5'')]) = [(''minSalary'', JStr ''5'')]"
  using filter_changes_only_pattern_key [of "[(''nameLike'', JStr ''tech''), (''minEmployees'', JStr ''5'')]"]
        filter_changes_only_pattern_key [of "[(''minSalary'', JStr ''5'')]"]
  by (simp add: get_prop_def)

section \<open>Properties of \<open>Job.update\<close>\<close>

lemma resolve_job_id: "resolve job_jsToSql ''id'' = ''id''"
  by (simp add: resolve_def job_jsToSql_def)

lemma resolve_job_companyHandle: "resolve job_jsToSql ''companyHandle'' = ''company_handle''"
  by (simp add: resolve_def job_jsToSql_def)

text \<open>
  Claim C10 as stated fails when one of the two keys is falsy and the other truthy:
  \<^verbatim>\<open>{id: 0, companyHandle: "c4"}\<close> contains \<^verbatim>\<open>id\<close> with a falsy value and is
  rejected all the same, because of \<^verbatim>\<open>companyHandle\<close>.
\<close>

theorem Job_update_falsy_id_truthy_companyHandle_rejected:
  "get_prop [(''id'', JNum 0), (''companyHandle'', JStr ''c4'')] ''id'' = JNum 0
   \<and> \<not> truthy (JNum 0)
   \<and> Job_update (JNum 1) [(''id'', JNum 0), (''companyHandle'', JStr ''c4'')]
     = Inl (BadRequestError ''Job id and companyHandle can not be changed'')"
  by code_simp

text \<open>
  Claim C10, amended. \<^verbatim>\<open>Job.update\<close> raises the error for immutable fields exactly
  when \<^verbatim>\<open>id\<close> or \<^verbatim>\<open>companyHandle\<close> holds a truthy value: presence alone does not
  trigger it. For a non-empty update object in which neither holds a truthy value (as
  with \<^verbatim>\<open>id: 0\<close> or \<^verbatim>\<open>companyHandle: ""\<close>) the statement is built, and such a key
  at position \<open>i\<close> (from 0) appears in the assignment clause as \<^verbatim>\<open>"id"=$\<close>\<open>(i + 1)\<close>,
  respectively \<^verbatim>\<open>"company_handle"=$\<close>\<open>(i + 1)\<close>.
\<close>

theorem Job_update_rejects_on_truthiness:
  \<open>((Job_update jid data = Inl (BadRequestError ''Job id and companyHandle can not be changed''))
      = (truthy (get_prop data ''id'') \<or> truthy (get_prop data ''companyHandle'')))
   \<and> (\<not> truthy (get_prop data ''id'') \<and> \<not> truthy (get_prop data ''companyHandle'') \<and> data \<noteq> []
       \<longrightarrow> Job_update jid data
             = Inr \<lparr> querySql = job_querySql (join '', '' (cols (Object_keys data) job_jsToSql))
                                   (Object_values data @ [jid]),
                      queryValues = Object_values data @ [jid] \<rparr>
           \<and> (\<forall>i<length data. fst (data ! i) = ''id'' \<longrightarrow>
                 cols (Object_keys data) job_jsToSql ! i = ''"id"=$'' @ string_of_nat (i + 1))
           \<and> (\<forall>i<length data. fst (data ! i) = ''companyHandle'' \<longrightarrow>
                 cols (Object_keys data) job_jsToSql ! i
                   = ''"company_handle"=$'' @ string_of_nat (i + 1)))\<close>
proof (intro conjI impI)
  show "(Job_update jid data = Inl (BadRequestError ''Job id and companyHandle can not be changed''))
      = (truthy (get_prop data ''id'') \<or> truthy (get_prop data ''companyHandle''))"
    by (auto simp: Job_update_def sqlForPartialUpdate_def Let_def split: sum.splits if_splits)
next
  assume a: "\<not> truthy (get_prop data ''id'') \<and> \<not> truthy (get_prop data ''companyHandle'') \<and> data \<noteq> []"
  then show "Job_update jid data
             = Inr \<lparr> querySql = job_querySql (join '', '' (cols (Object_keys data) job_jsToSql))
                                   (Object_values data @ [jid]),
                      queryValues = Object_values data @ [jid] \<rparr>"
    by (simp add: Job_update_def sqlForPartialUpdate_def Let_def Object_keys_def)
next
  show \<open>\<forall>i<length data. fst (data ! i) = ''id'' \<longrightarrow>
                 cols (Object_keys data) job_jsToSql ! i = ''"id"=$'' @ string_of_nat (i + 1)\<close>
    by (simp add: nth_cols Object_keys_def resolve_job_id)
next
  show \<open>\<forall>i<length data. fst (data ! i) = ''companyHandle'' \<longrightarrow>
                 cols (Object_keys data) job_jsToSql ! i
                   = ''"company_handle"=$'' @ string_of_nat (i + 1)\<close>
    by (simp add: nth_cols Object_keys_def resolve_job_companyHandle)
qed

theorem Job_update_rejects_on_truthiness_witness:
  \<open>\<not> truthy (get_prop [(''id'', JNum 0), (''title'', JStr ''x'')] ''id'')
   \<and> \<not> truthy (get_prop [(''id'', JNum 0), (''title'', JStr ''x'')] ''companyHandle'')
   \<and> [(''id'', JNum 0), (''title'', JStr ''x'')] \<noteq> []
   \<and> Job_update (JNum 7) [(''id'', JNum 0), (''title'', JStr ''x'')]
       = Inr \<lparr> querySql = job_querySql ''"id"=$1, "title"=$2'' [JNum 0, JStr ''x'', JNum 7],
                queryValues = [JNum 0, JStr ''x'', JNum 7] \<rparr>\<close>
proof -
  have h: "\<not> truthy (get_prop [(''id'', JNum 0), (''title'', JStr ''x'')] ''id'')
     \<and> \<not> truthy (get_prop [(''id'', JNum 0), (''title'', JStr ''x'')] ''companyHandle'')
     \<and> [(''id'', JNum 0), (''title'', JStr ''x'')] \<noteq> []"
    by (simp add: get_prop_def)
  have c: \<open>join '', '' (cols (Object_keys [(''id'', JNum 0), (''title'', JStr ''x'')]) job_jsToSql)
             = ''"id"=$1, "title"=$2''\<close>
    by code_simp
  from Job_update_rejects_on_truthiness [of "JNum 7" "[(''id'', JNum 0), (''title'', JStr ''x'')]"] h c show ?thesis
    by (simp add: Object_values_def)
qed

end
